theory Spec2Isabelle
  imports Complex_Main "HOL-Library.Char_ord" "HOL-Library.List_Lexorder" "HOL-Library.Multiset"
begin

section \<open>The rating table\<close>

text \<open>
  \<^verbatim>\<open>movieAnalysis.py\<close> reads \<^verbatim>\<open>data/movie_ratings.csv\<close> into a data frame and
  derives four summary frames from it. A row of the data frame has the four columns the
  code reads. Any cell of a CSV file may be empty, and the library then stores a missing
  value (NaN); a missing cell is \<open>None\<close> here.

  Ratings are modelled as rationals and the mean as the exact quotient. The library
  computes in binary64: on the rating scale of the data set (whole or half stars) every
  sum of ratings is exact there, and the mean is the correctly rounded quotient, a
  monotone function of the exact one that leaves every rating of the scale fixed.
\<close>

record row =
  title :: "string option"
  genres :: "string option"
  rating :: "rat option"
  year :: "int option"

text \<open>A column with its missing values dropped (\<^verbatim>\<open>dropna\<close>, \<^verbatim>\<open>skipna\<close>).\<close>

definition col :: "(row \<Rightarrow> 'a option) \<Rightarrow> row list \<Rightarrow> 'a list" where
  "col f df = List.map_filter f df"

section \<open>Library operations the code calls\<close>

text \<open>
  \<^verbatim>\<open>Series.value_counts()\<close>: the distinct values (missing ones dropped before), each with
  the number of its occurrences, sorted by that number, largest first. The distinct values
  are collected in the order of their first occurrence; the sort is modelled as a stable
  one, so values with equal counts stay in that order. The library promises no order among
  equal counts, and no theorem below depends on one.
\<close>

definition unique :: "'a list \<Rightarrow> 'a list" where
  "unique xs = rev (remdups (rev xs))"

definition value_counts :: "'a list \<Rightarrow> ('a \<times> nat) list" where
  "value_counts xs =
     sort_key (\<lambda>(v, c). - int c) (map (\<lambda>v. (v, count_list xs v)) (unique xs))"

text \<open>
  \<^verbatim>\<open>groupby(key)\<close>: rows whose key is missing belong to no group; the groups come in
  ascending order of the key (\<^verbatim>\<open>sort=True\<close>), strings compared character by character.
\<close>

definition group_keys :: "'k::linorder list \<Rightarrow> 'k list" where
  "group_keys ks = sort (remdups ks)"

text \<open>
  \<^verbatim>\<open>mean\<close> skips missing values and is NaN (\<open>None\<close>) when nothing is left;
  \<^verbatim>\<open>count\<close> is the number of values that are not missing.
\<close>

definition mean :: "rat list \<Rightarrow> rat option" where
  "mean xs = (if xs = [] then None else Some (sum_list xs / of_nat (length xs)))"

text \<open>
  \<^verbatim>\<open>head(n)\<close> is the slice \<^verbatim>\<open>[:n]\<close>: the first \<open>n\<close> rows, and for a negative \<open>n\<close>
  all but the last \<open>- n\<close> rows.
\<close>

definition head :: "int \<Rightarrow> 'a list \<Rightarrow> 'a list" where
  "head n xs = (if 0 \<le> n then take (nat n) xs else take (length xs - nat (- n)) xs)"

section \<open>The four summaries\<close>

subsection \<open>Ratings per genre (\<^verbatim>\<open>plot_genre_counts\<close>, lines 24-25)\<close>

definition genre_counts :: "row list \<Rightarrow> (string \<times> nat) list" where
  "genre_counts df = value_counts (col genres df)"

subsection \<open>Five-star ratings per genre (\<^verbatim>\<open>plot_5star_treemap\<close>, lines 56-60)\<close>

definition top_ratings :: "row list \<Rightarrow> row list" where
  "top_ratings df = filter (\<lambda>r. rating r = Some 5) df"

definition five_star_genre_counts :: "row list \<Rightarrow> (string \<times> nat) list" where
  "five_star_genre_counts df = value_counts (col genres (top_ratings df))"

subsection \<open>Mean rating per release year (\<^verbatim>\<open>plot_mean_rating_by_year\<close>, line 81)\<close>

definition mean_ratings :: "row list \<Rightarrow> (int \<times> rat option) list" where
  "mean_ratings df =
     map (\<lambda>y. (y, mean (col rating (filter (\<lambda>r. year r = Some y) df))))
       (group_keys (col year df))"

subsection \<open>Best rated movies (\<^verbatim>\<open>top_movies_table\<close>, lines 99-111)\<close>

text \<open>A row of the result; \<open>movie\<close> is the column \<^verbatim>\<open>title\<close>.\<close>

record movie_stat =
  movie :: string
  avg_rating :: "rat option"
  rating_count :: nat

definition movie_stats :: "row list \<Rightarrow> movie_stat list" where
  "movie_stats df =
     map (\<lambda>t. let rs = col rating (filter (\<lambda>r. title r = Some t) df)
              in \<lparr>movie = t, avg_rating = mean rs, rating_count = length rs\<rparr>)
       (group_keys (col title df))"

definition filtered_movies :: "movie_stat list \<Rightarrow> int \<Rightarrow> movie_stat list" where
  "filtered_movies stats min_ratings =
     filter (\<lambda>s. min_ratings \<le> int (rating_count s)) stats"

text \<open>
  \<^verbatim>\<open>sort_values("avg_rating", ascending=False)\<close>: the rows whose average is NaN go last,
  the others are sorted, largest average first. As for \<open>value_counts\<close> the sort is modelled
  as a stable one and nothing below depends on the order among equal averages.
\<close>

definition sort_values_desc :: "movie_stat list \<Rightarrow> movie_stat list" where
  "sort_values_desc xs =
     sort_key (\<lambda>s. - the (avg_rating s)) (filter (\<lambda>s. avg_rating s \<noteq> None) xs)
     @ filter (\<lambda>s. avg_rating s = None) xs"

definition top_movies :: "row list \<Rightarrow> int \<Rightarrow> int \<Rightarrow> movie_stat list" where
  "top_movies df min_ratings top_n =
     head top_n (sort_values_desc (filtered_movies (movie_stats df) min_ratings))"

section \<open>The functions of the source, on a store of data frames\<close>

text \<open>
  Data frames are mutable objects and the source passes them by reference. The store is
  the list of the frames allocated so far; a reference is an index into it. Every library
  call of the source returns a new frame; the one update in place is the assignment to
  \<^verbatim>\<open>genre_counts.columns\<close>. The charts drawn from the summaries are not modelled: each
  function returns the reference to the summary frame it hands to the plotting library
  (\<open>top_movies_table\<close> returns that frame itself). The frame that
  \<^verbatim>\<open>value_counts().reset_index()\<close> returns has two columns, labelled here as the
  current library labels them; the source then sets the two labels itself.
\<close>

datatype cells =
  Ratings "row list"
| Counts "(string \<times> nat) list"
| Means "(int \<times> rat option) list"
| Stats "movie_stat list"

record frame =
  columns :: "string list"
  body :: cells

type_synonym store = "frame list"

datatype error = KeyError | ValueError

definition new_frame :: "store \<Rightarrow> frame \<Rightarrow> store \<times> nat" where
  "new_frame s f = (s @ [f], length s)"

text \<open>
  Reading columns by name raises \<^verbatim>\<open>KeyError\<close> when one is absent. The source reads
  rating tables and the per-movie statistics only; the model answers \<^verbatim>\<open>KeyError\<close> for
  a frame of another shape as well.
\<close>

definition read_table :: "store \<Rightarrow> nat \<Rightarrow> string list \<Rightarrow> error + row list" where
  "read_table s df names =
     (if df < length s \<and> set names \<subseteq> set (columns (s ! df))
      then (case body (s ! df) of Ratings rows \<Rightarrow> Inr rows | _ \<Rightarrow> Inl KeyError)
      else Inl KeyError)"

definition read_stats :: "store \<Rightarrow> nat \<Rightarrow> string list \<Rightarrow> error + movie_stat list" where
  "read_stats s df names =
     (if df < length s \<and> set names \<subseteq> set (columns (s ! df))
      then (case body (s ! df) of Stats rows \<Rightarrow> Inr rows | _ \<Rightarrow> Inl KeyError)
      else Inl KeyError)"

text \<open>
  \<^verbatim>\<open>frame.columns = labels\<close> relabels the frame in place and raises \<^verbatim>\<open>ValueError\<close>
  when the number of labels is not the number of columns.
\<close>

definition set_columns :: "store \<Rightarrow> nat \<Rightarrow> string list \<Rightarrow> error + store" where
  "set_columns s df labels =
     (if df < length s
      then (if length labels = length (columns (s ! df))
            then Inr (s[df := (s ! df)\<lparr>columns := labels\<rparr>])
            else Inl ValueError)
      else Inl KeyError)"

definition plot_genre_counts :: "store \<Rightarrow> nat \<Rightarrow> error + store \<times> nat" where
  "plot_genre_counts s df =
     (case read_table s df [''genres''] of
        Inl e \<Rightarrow> Inl e
      | Inr rows \<Rightarrow>
          (case new_frame s \<lparr>columns = [''genres'', ''count''],
                             body = Counts (value_counts (col genres rows))\<rparr> of
             (s1, counts) \<Rightarrow>
               (case set_columns s1 counts [''genres'', ''count''] of
                  Inl e \<Rightarrow> Inl e
                | Inr s2 \<Rightarrow> Inr (s2, counts))))"

definition plot_5star_treemap :: "store \<Rightarrow> nat \<Rightarrow> error + store \<times> nat" where
  "plot_5star_treemap s df =
     (case read_table s df [''rating''] of
        Inl e \<Rightarrow> Inl e
      | Inr rows \<Rightarrow>
          (case new_frame s \<lparr>columns = columns (s ! df),
                             body = Ratings (top_ratings rows)\<rparr> of
             (s1, top5) \<Rightarrow>
               (case read_table s1 top5 [''genres''] of
                  Inl e \<Rightarrow> Inl e
                | Inr rows5 \<Rightarrow>
                    (case new_frame s1 \<lparr>columns = [''genres'', ''count''],
                                        body = Counts (value_counts (col genres rows5))\<rparr> of
                       (s2, counts) \<Rightarrow>
                         (case set_columns s2 counts [''genres'', ''count''] of
                            Inl e \<Rightarrow> Inl e
                          | Inr s3 \<Rightarrow> Inr (s3, counts))))))"

definition plot_mean_rating_by_year :: "store \<Rightarrow> nat \<Rightarrow> error + store \<times> nat" where
  "plot_mean_rating_by_year s df =
     (case read_table s df [''year'', ''rating''] of
        Inl e \<Rightarrow> Inl e
      | Inr rows \<Rightarrow>
          Inr (new_frame s \<lparr>columns = [''year'', ''rating''],
                            body = Means (mean_ratings rows)\<rparr>))"

definition top_movies_table :: "store \<Rightarrow> nat \<Rightarrow> int \<Rightarrow> int \<Rightarrow> error + store \<times> nat" where
  "top_movies_table s df min_ratings top_n =
     (case read_table s df [''title'', ''rating''] of
        Inl e \<Rightarrow> Inl e
      | Inr rows \<Rightarrow>
          (case new_frame s \<lparr>columns = [''title'', ''avg_rating'', ''rating_count''],
                             body = Stats (movie_stats rows)\<rparr> of
             (s1, stats) \<Rightarrow>
               (case read_stats s1 stats [''rating_count''] of
                  Inl e \<Rightarrow> Inl e
                | Inr ms \<Rightarrow>
                    (case new_frame s1 \<lparr>columns = columns (s1 ! stats),
                                        body = Stats (filtered_movies ms min_ratings)\<rparr> of
                       (s2, filtered) \<Rightarrow>
                         (case read_stats s2 filtered [''avg_rating''] of
                            Inl e \<Rightarrow> Inl e
                          | Inr fs \<Rightarrow>
                              Inr (new_frame s2 \<lparr>columns = columns (s2 ! filtered),
                                                 body = Stats (head top_n (sort_values_desc fs))\<rparr>))))))"

text \<open>
  The functions are called on the loaded table: a frame of the store that holds rating
  rows under the four column labels the source reads.
\<close>

definition rating_table :: "store \<Rightarrow> nat \<Rightarrow> row list \<Rightarrow> bool" where
  "rating_table s df rows \<longleftrightarrow>
     df < length s \<and> body (s ! df) = Ratings rows
     \<and> set [''title'', ''genres'', ''rating'', ''year''] \<subseteq> set (columns (s ! df))"

section \<open>A small table\<close>

text \<open>Two ratings of one movie and one rating of another, all of the same year.\<close>

definition scenario :: "row list" where
  "scenario =
     [\<lparr>title = Some ''Toy Story'', genres = Some ''Animation'', rating = Some 5, year = Some 1995\<rparr>,
      \<lparr>title = Some ''Toy Story'', genres = Some ''Animation'', rating = Some 4, year = Some 1995\<rparr>,
      \<lparr>title = Some ''Heat'', genres = Some ''Action'', rating = Some 3, year = Some 1995\<rparr>]"

definition loaded :: store where
  "loaded = [\<lparr>columns = [''title'', ''genres'', ''rating'', ''year''], body = Ratings scenario\<rparr>]"

section \<open>Facts about the library operations\<close>

lemma set_col: "set (col f df) = {v. \<exists>r\<in>set df. f r = Some v}"
proof (induction df)
  case Nil
  then show ?case by (simp add: col_def List.map_filter_def)
next
  case (Cons r df)
  then show ?case by (cases "f r") (auto simp: col_def List.map_filter_def)
qed

lemma col_filter: "col f df = map (the \<circ> f) (filter (\<lambda>r. f r \<noteq> None) df)"
  by (simp add: col_def List.map_filter_def)

lemma length_col: "length (col f df) = length (filter (\<lambda>r. f r \<noteq> None) df)"
  by (simp add: col_filter)

lemma count_list_col:
  "count_list (col f df) v = length (filter (\<lambda>r. f r = Some v) df)"
  by (induction df) (auto simp: col_def List.map_filter_def)

lemma col_Nil_iff: "col f df = [] \<longleftrightarrow> (\<forall>r\<in>set df. f r = None)"
  by (induction df) (auto simp: col_def List.map_filter_def)

lemma col_filter_filter:
  "col f (filter P df) = map (the \<circ> f) (filter (\<lambda>r. P r \<and> f r \<noteq> None) df)"
  by (simp add: col_filter conj_commute)

lemma set_unique: "set (unique xs) = set xs"
  by (simp add: unique_def)

lemma distinct_unique: "distinct (unique xs)"
  by (simp add: unique_def)

lemma mset_value_counts:
  "mset (value_counts xs) = mset (map (\<lambda>v. (v, count_list xs v)) (unique xs))"
  by (simp add: value_counts_def)

lemma set_value_counts: "set (value_counts xs) = (\<lambda>v. (v, count_list xs v)) ` set xs"
  by (simp add: value_counts_def set_unique)

lemma map_fst_value_counts_mset: "mset (map fst (value_counts xs)) = mset (unique xs)"
proof -
  have "mset (map fst (value_counts xs)) = image_mset fst (mset (value_counts xs))"
    by simp
  also have "\<dots> = mset (map fst (map (\<lambda>v. (v, count_list xs v)) (unique xs)))"
    by (simp only: mset_value_counts mset_map)
  also have "\<dots> = mset (unique xs)"
    by (simp add: comp_def)
  finally show ?thesis .
qed

lemma distinct_value_counts: "distinct (map fst (value_counts xs))"
  using mset_eq_imp_distinct_iff [OF map_fst_value_counts_mset [of xs]]
  by (simp add: distinct_unique)

lemma set_fst_value_counts: "set (map fst (value_counts xs)) = set xs"
  using mset_eq_setD [OF map_fst_value_counts_mset [of xs]]
  by (simp add: set_unique)

lemma sum_count_unique: "sum_list (map (count_list xs) (unique xs)) = length xs"
proof -
  have "sum_list (map (count_list xs) (unique xs)) = sum (count_list xs) (set (unique xs))"
    by (rule sum_list_distinct_conv_sum_set [OF distinct_unique])
  also have "\<dots> = length xs"
    by (simp add: set_unique sum_count_set)
  finally show ?thesis .
qed

lemma sum_value_counts: "sum_list (map snd (value_counts xs)) = length xs"
proof -
  have "mset (map snd (value_counts xs)) = image_mset snd (mset (value_counts xs))"
    by simp
  also have "\<dots> = mset (map snd (map (\<lambda>v. (v, count_list xs v)) (unique xs)))"
    by (simp only: mset_value_counts mset_map)
  also have "\<dots> = mset (map (count_list xs) (unique xs))"
    by (simp add: comp_def)
  finally have "sum_mset (mset (map snd (value_counts xs))) = sum_mset (mset (map (count_list xs) (unique xs)))"
    by simp
  then show ?thesis
    by (simp only: sum_mset_sum_list sum_count_unique)
qed

lemma sorted_value_counts: "sorted_wrt (\<ge>) (map snd (value_counts xs))"
proof -
  have "sorted (map (\<lambda>(v, c). - int c) (value_counts xs))"
    unfolding value_counts_def by (rule sorted_sort_key)
  then have "sorted_wrt (\<lambda>p q. - int (snd p) \<le> - int (snd q)) (value_counts xs)"
    by (simp add: sorted_wrt_map case_prod_unfold)
  then show ?thesis
    by (simp add: sorted_wrt_map)
qed

lemma value_counts_positive: "(v, c) \<in> set (value_counts xs) \<Longrightarrow> 1 \<le> c"
  using count_list_0_iff [of xs v] by (auto simp: set_value_counts)

lemma value_counts_count: "(v, c) \<in> set (value_counts xs) \<Longrightarrow> c = count_list xs v"
  by (auto simp: set_value_counts)

lemma value_counts_Nil: "value_counts [] = []"
  by (simp add: value_counts_def unique_def)



lemma sum_list_bounds:
  fixes xs :: "rat list"
  assumes "\<forall>x\<in>set xs. lo \<le> x \<and> x \<le> hi"
  shows "of_nat (length xs) * lo \<le> sum_list xs \<and> sum_list xs \<le> of_nat (length xs) * hi"
  using assms by (induction xs) (auto simp: algebra_simps add_mono)

lemma mean_bounds:
  assumes "xs \<noteq> []"
  shows "\<exists>v. mean xs = Some v \<and> Min (set xs) \<le> v \<and> v \<le> Max (set xs)"
proof -
  have n: "0 < (of_nat (length xs) :: rat)"
    using assms by simp
  have "\<forall>x\<in>set xs. Min (set xs) \<le> x \<and> x \<le> Max (set xs)"
    by simp
  from sum_list_bounds [OF this]
  have "Min (set xs) \<le> sum_list xs / of_nat (length xs)"
    and "sum_list xs / of_nat (length xs) \<le> Max (set xs)"
    using n by (simp_all add: pos_le_divide_eq pos_divide_le_eq mult.commute)
  then show ?thesis
    using assms by (simp add: mean_def)
qed

section \<open>The small table, evaluated\<close>

lemma genre_counts_scenario: "genre_counts scenario = [(''Animation'', 2), (''Action'', 1)]"
  by code_simp

lemma five_star_scenario: "five_star_genre_counts scenario = [(''Animation'', 1)]"
  by code_simp

lemma mean_ratings_scenario: "mean_ratings scenario = [(1995, Some 4)]"
  by code_simp

lemma top_movies_scenario:
  "top_movies scenario 1 5 =
     [\<lparr>movie = ''Toy Story'', avg_rating = Some (9 / 2), rating_count = 2\<rparr>,
      \<lparr>movie = ''Heat'', avg_rating = Some 3, rating_count = 1\<rparr>]"
  by code_simp

section \<open>Ratings per genre\<close>

text \<open>
  C3. For every table, the counts of \<open>genre_counts\<close> add up to the number of rows whose
  genre is not missing, and every genre present in the table appears exactly once in the
  result (the genres of the result are distinct, and they are the genres of the table),
  with the number of rows of that genre as its count.
\<close>

theorem genre_counts_complete:
  "sum_list (map snd (genre_counts df)) = length (filter (\<lambda>r. genres r \<noteq> None) df)
   \<and> distinct (map fst (genre_counts df))
   \<and> set (map fst (genre_counts df)) = {g. \<exists>r\<in>set df. genres r = Some g}
   \<and> (\<forall>(g, c)\<in>set (genre_counts df). c = length (filter (\<lambda>r. genres r = Some g) df))"
proof (intro conjI)
  show "sum_list (map snd (genre_counts df)) = length (filter (\<lambda>r. genres r \<noteq> None) df)"
    by (simp only: genre_counts_def sum_value_counts length_col)
  show "distinct (map fst (genre_counts df))"
    by (simp only: genre_counts_def distinct_value_counts)
  show "set (map fst (genre_counts df)) = {g. \<exists>r\<in>set df. genres r = Some g}"
    by (simp only: genre_counts_def set_fst_value_counts set_col)
  show "\<forall>(g, c)\<in>set (genre_counts df). c = length (filter (\<lambda>r. genres r = Some g) df)"
    by (auto simp: genre_counts_def dest!: value_counts_count simp: count_list_col)
qed

theorem genre_counts_complete_witness:
  "(''Animation'', 2) \<in> set (genre_counts scenario)
   \<and> length (filter (\<lambda>r. genres r = Some ''Animation'') scenario) = 2
   \<and> length (filter (\<lambda>r. genres r \<noteq> None) scenario) = 3"
  using genre_counts_complete [of scenario]
  by (simp add: genre_counts_scenario)

text \<open>
  C10. For every table, the results of \<open>genre_counts\<close> and of \<open>five_star_genre_counts\<close>
  are sorted by count, largest first, and every count in them is at least 1.
\<close>

theorem counts_sorted:
  "sorted_wrt (\<ge>) (map snd (genre_counts df))
   \<and> (\<forall>(g, c)\<in>set (genre_counts df). 1 \<le> c)
   \<and> sorted_wrt (\<ge>) (map snd (five_star_genre_counts df))
   \<and> (\<forall>(g, c)\<in>set (five_star_genre_counts df). 1 \<le> c)"
  by (auto simp: genre_counts_def five_star_genre_counts_def sorted_value_counts
      dest: value_counts_positive)

theorem counts_sorted_witness:
  "map snd (genre_counts scenario) = [2, 1]
   \<and> (''Animation'', 2) \<in> set (genre_counts scenario) \<and> (1::nat) \<le> 2
   \<and> (''Animation'', 1) \<in> set (five_star_genre_counts scenario)"
  using counts_sorted [of scenario]
  by (simp add: genre_counts_scenario five_star_scenario)

section \<open>The scenario of the specification\<close>

text \<open>
  C5. On the three rows (Toy Story, Animation, 5, 1995), (Toy Story, Animation, 4, 1995),
  (Heat, Action, 3, 1995): \<open>genre_counts\<close> gives Animation 2 and Action 1,
  \<open>five_star_genre_counts\<close> gives Animation 1, the yearly mean is 4 for 1995, and the top
  movies with at least 1 rating, at most 5 of them, are Toy Story (4.5, 2 ratings) and
  then Heat (3, 1 rating).
\<close>

theorem scenario_results:
  "genre_counts scenario = [(''Animation'', 2), (''Action'', 1)]
   \<and> five_star_genre_counts scenario = [(''Animation'', 1)]
   \<and> mean_ratings scenario = [(1995, Some 4)]
   \<and> top_movies scenario 1 5 =
       [\<lparr>movie = ''Toy Story'', avg_rating = Some (9 / 2), rating_count = 2\<rparr>,
        \<lparr>movie = ''Heat'', avg_rating = Some 3, rating_count = 1\<rparr>]"
  by (simp only: genre_counts_scenario five_star_scenario mean_ratings_scenario
      top_movies_scenario simp_thms)

section \<open>Five-star ratings per genre\<close>

lemma length_filter_filter_le:
  "length (filter P (filter Q xs)) \<le> length (filter P xs)"
  by (induction xs) auto

lemma five_star_count:
  "(g, c) \<in> set (five_star_genre_counts df) \<Longrightarrow>
     c = length (filter (\<lambda>r. rating r = Some 5 \<and> genres r = Some g) df)"
  by (auto simp: five_star_genre_counts_def top_ratings_def count_list_col conj_commute
      dest!: value_counts_count)

lemma genre_counts_member:
  "(\<exists>r\<in>set df. genres r = Some g) \<Longrightarrow>
     (g, length (filter (\<lambda>r. genres r = Some g) df)) \<in> set (genre_counts df)"
  by (auto simp: genre_counts_def set_value_counts set_col count_list_col image_iff)

text \<open>
  C4. For every table, every genre of \<open>five_star_genre_counts\<close> is a genre of
  \<open>genre_counts\<close>, with a count that is at most its count there. The result counts
  exactly the rows whose rating equals 5: its genres are the genres of those rows, each
  once, each with the number of those rows of that genre; and when no row has rating 5
  the result is empty.
\<close>

theorem five_star_subset:
  "(\<forall>(g, c)\<in>set (five_star_genre_counts df).
      \<exists>c'. (g, c') \<in> set (genre_counts df) \<and> c \<le> c')
   \<and> distinct (map fst (five_star_genre_counts df))
   \<and> set (map fst (five_star_genre_counts df))
       = {g. \<exists>r\<in>set df. rating r = Some 5 \<and> genres r = Some g}
   \<and> (\<forall>(g, c)\<in>set (five_star_genre_counts df).
        c = length (filter (\<lambda>r. rating r = Some 5 \<and> genres r = Some g) df))
   \<and> sum_list (map snd (five_star_genre_counts df))
       = length (filter (\<lambda>r. rating r = Some 5 \<and> genres r \<noteq> None) df)
   \<and> ((\<forall>r\<in>set df. rating r \<noteq> Some 5) \<longrightarrow> five_star_genre_counts df = [])"
proof (intro conjI)
  show "\<forall>(g, c)\<in>set (five_star_genre_counts df).
      \<exists>c'. (g, c') \<in> set (genre_counts df) \<and> c \<le> c'"
  proof (clarify)
    fix g c
    assume gc: "(g, c) \<in> set (five_star_genre_counts df)"
    then have c: "c = length (filter (\<lambda>r. rating r = Some 5 \<and> genres r = Some g) df)"
      by (rule five_star_count)
    from gc have "1 \<le> c"
      unfolding five_star_genre_counts_def by (rule value_counts_positive)
    with c have "filter (\<lambda>r. rating r = Some 5 \<and> genres r = Some g) df \<noteq> []"
      by auto
    then have ex: "\<exists>r\<in>set df. genres r = Some g"
      by (auto simp: filter_empty_conv)
    have "c \<le> length (filter (\<lambda>r. genres r = Some g) df)"
      unfolding c using length_filter_filter_le [of "\<lambda>r. genres r = Some g" "\<lambda>r. rating r = Some 5" df]
      by (simp add: conj_commute)
    with genre_counts_member [OF ex]
    show "\<exists>c'. (g, c') \<in> set (genre_counts df) \<and> c \<le> c'"
      by blast
  qed
  show "distinct (map fst (five_star_genre_counts df))"
    by (simp only: five_star_genre_counts_def distinct_value_counts)
  show "set (map fst (five_star_genre_counts df))
       = {g. \<exists>r\<in>set df. rating r = Some 5 \<and> genres r = Some g}"
    by (auto simp only: five_star_genre_counts_def set_fst_value_counts set_col top_ratings_def
        set_filter mem_Collect_eq)
  show "\<forall>(g, c)\<in>set (five_star_genre_counts df).
        c = length (filter (\<lambda>r. rating r = Some 5 \<and> genres r = Some g) df)"
    using five_star_count by blast
  show "sum_list (map snd (five_star_genre_counts df))
       = length (filter (\<lambda>r. rating r = Some 5 \<and> genres r \<noteq> None) df)"
    by (simp add: five_star_genre_counts_def sum_value_counts length_col top_ratings_def
        conj_commute)
  show "(\<forall>r\<in>set df. rating r \<noteq> Some 5) \<longrightarrow> five_star_genre_counts df = []"
    by (simp add: five_star_genre_counts_def top_ratings_def filter_False col_def
        List.map_filter_def value_counts_Nil)
qed

lemma five_star_no_rows:
  "five_star_genre_counts
     [\<lparr>title = Some ''Heat'', genres = Some ''Action'', rating = Some 3, year = Some 1995\<rparr>] = []"
  by code_simp

theorem five_star_subset_witness:
  "(''Animation'', 1) \<in> set (five_star_genre_counts scenario)
   \<and> (''Animation'', 2) \<in> set (genre_counts scenario)
   \<and> length (filter (\<lambda>r. rating r = Some 5 \<and> genres r = Some ''Animation'') scenario) = 1
   \<and> rating \<lparr>title = Some ''Heat'', genres = Some ''Action'', rating = Some 3, year = Some 1995\<rparr> \<noteq> Some 5
   \<and> five_star_genre_counts
       [\<lparr>title = Some ''Heat'', genres = Some ''Action'', rating = Some 3, year = Some 1995\<rparr>] = []"
  using five_star_subset [of scenario]
    five_star_subset [of "[\<lparr>title = Some ''Heat'', genres = Some ''Action'', rating = Some 3, year = Some 1995\<rparr>]"]
  by (simp add: genre_counts_scenario five_star_scenario)

section \<open>Mean rating per release year\<close>

lemma mean_ratings_member:
  "(y, m) \<in> set (mean_ratings df) \<Longrightarrow>
     m = mean (map (the \<circ> rating) (filter (\<lambda>r. year r = Some y \<and> rating r \<noteq> None) df))"
  by (auto simp: mean_ratings_def col_filter_filter)

lemma set_present_ratings:
  "set (map (the \<circ> rating) (filter (\<lambda>r. P r \<and> rating r \<noteq> None) df))
     = {v. \<exists>r\<in>set df. P r \<and> rating r = Some v}"
  by (auto simp: image_iff) force






section \<open>Best rated movies\<close>











section \<open>The functions of the source on the loaded table\<close>

lemma read_table_loaded:
  assumes "rating_table s df rows"
    and "set names \<subseteq> set [''title'', ''genres'', ''rating'', ''year'']"
  shows "read_table s df names = Inr rows"
  using assms by (auto simp: rating_table_def read_table_def)

lemma rating_table_append: "rating_table s df rows \<Longrightarrow> rating_table (s @ t) df rows"
  by (simp add: rating_table_def nth_append)

lemma set_columns_last:
  "length labels = length (columns f) \<Longrightarrow>
     set_columns (s @ [f]) (length s) labels = Inr (s @ [f\<lparr>columns := labels\<rparr>])"
  by (simp add: set_columns_def)

lemma plot_genre_counts_run:
  assumes "rating_table s df rows"
  shows "plot_genre_counts s df
           = Inr (s @ [\<lparr>columns = [''genres'', ''count''], body = Counts (genre_counts rows)\<rparr>],
                  length s)"
  unfolding plot_genre_counts_def
  by (simp add: read_table_loaded [OF assms] new_frame_def set_columns_last genre_counts_def)

lemma plot_5star_treemap_run:
  assumes "rating_table s df rows"
  shows "plot_5star_treemap s df
           = Inr (s @ [\<lparr>columns = columns (s ! df), body = Ratings (top_ratings rows)\<rparr>,
                       \<lparr>columns = [''genres'', ''count''],
                        body = Counts (five_star_genre_counts rows)\<rparr>],
                  Suc (length s))"
proof -
  let ?top5 = "\<lparr>columns = columns (s ! df), body = Ratings (top_ratings rows)\<rparr>"
  have "rating_table (s @ [?top5]) (length s) (top_ratings rows)"
    using assms by (simp add: rating_table_def)
  then have r: "read_table (s @ [?top5]) (length s) [''genres''] = Inr (top_ratings rows)"
    by (rule read_table_loaded) simp
  have c: "set_columns (s @ [?top5, f]) (Suc (length s)) labels
             = Inr (s @ [?top5, f\<lparr>columns := labels\<rparr>])"
    if "length labels = length (columns f)" for f labels
    using set_columns_last [of labels f "s @ [?top5]"] that by simp
  show ?thesis
    unfolding plot_5star_treemap_def
    by (simp add: read_table_loaded [OF assms] new_frame_def r c five_star_genre_counts_def)
qed

lemma plot_mean_rating_by_year_run:
  assumes "rating_table s df rows"
  shows "plot_mean_rating_by_year s df
           = Inr (s @ [\<lparr>columns = [''year'', ''rating''], body = Means (mean_ratings rows)\<rparr>],
                  length s)"
  unfolding plot_mean_rating_by_year_def
  by (simp add: read_table_loaded [OF assms] new_frame_def)

lemma top_movies_table_run:
  assumes "rating_table s df rows"
  shows "top_movies_table s df m n
           = Inr (s @ [\<lparr>columns = [''title'', ''avg_rating'', ''rating_count''],
                        body = Stats (movie_stats rows)\<rparr>,
                       \<lparr>columns = [''title'', ''avg_rating'', ''rating_count''],
                        body = Stats (filtered_movies (movie_stats rows) m)\<rparr>,
                       \<lparr>columns = [''title'', ''avg_rating'', ''rating_count''],
                        body = Stats (top_movies rows m n)\<rparr>],
                  Suc (Suc (length s)))"
  unfolding top_movies_table_def
  by (simp add: read_table_loaded [OF assms] new_frame_def read_stats_def nth_append
      top_movies_def)

lemma rating_table_loaded: "rating_table loaded 0 scenario"
  by (simp add: rating_table_def loaded_def)

text \<open>
  C9. Each of the four functions, run on a store whose frame \<open>df\<close> is the loaded
  table, returns and leaves that frame as it was; so it leaves every frame that was in the
  store before the call.
\<close>

theorem table_unchanged:
  assumes "rating_table s df rows"
  shows "(\<exists>s' r. plot_genre_counts s df = Inr (s', r)
            \<and> s' ! df = s ! df \<and> take (length s) s' = s)
       \<and> (\<exists>s' r. plot_5star_treemap s df = Inr (s', r)
            \<and> s' ! df = s ! df \<and> take (length s) s' = s)
       \<and> (\<exists>s' r. plot_mean_rating_by_year s df = Inr (s', r)
            \<and> s' ! df = s ! df \<and> take (length s) s' = s)
       \<and> (\<exists>s' r. top_movies_table s df m n = Inr (s', r)
            \<and> s' ! df = s ! df \<and> take (length s) s' = s)"
proof -
  have df: "df < length s"
    using assms by (simp add: rating_table_def)
  show ?thesis
    by (simp add: plot_genre_counts_run [OF assms] plot_5star_treemap_run [OF assms]
        plot_mean_rating_by_year_run [OF assms] top_movies_table_run [OF assms]
        nth_append df)
qed

theorem table_unchanged_witness:
  "rating_table loaded 0 scenario
   \<and> (\<exists>s' r. plot_genre_counts loaded 0 = Inr (s', r) \<and> body (s' ! 0) = Ratings scenario)
   \<and> (\<exists>s' r. plot_5star_treemap loaded 0 = Inr (s', r) \<and> body (s' ! 0) = Ratings scenario)
   \<and> (\<exists>s' r. plot_mean_rating_by_year loaded 0 = Inr (s', r)
         \<and> body (s' ! 0) = Ratings scenario)
   \<and> (\<exists>s' r. top_movies_table loaded 0 1 5 = Inr (s', r) \<and> body (s' ! 0) = Ratings scenario)"
proof -
  have b: "body (loaded ! 0) = Ratings scenario"
    by (simp add: loaded_def)
  from table_unchanged [OF rating_table_loaded, of 1 5] show ?thesis
    using rating_table_loaded b by auto
qed

text \<open>
  C7. Each of the four functions, called twice in a row on the loaded table (the second
  call on the store the first one left), returns both times, and the frame the second
  call returns equals the frame the first call returned, labels and cells; that frame is
  the summary of the rows of the table, and the second call leaves the first result as
  it was.
\<close>

theorem transforms_deterministic:
  assumes "rating_table s df rows"
  shows "(\<exists>s1 r1 s2 r2. plot_genre_counts s df = Inr (s1, r1)
            \<and> plot_genre_counts s1 df = Inr (s2, r2)
            \<and> s2 ! r2 = s1 ! r1 \<and> s2 ! r1 = s1 ! r1
            \<and> body (s1 ! r1) = Counts (genre_counts rows))
       \<and> (\<exists>s1 r1 s2 r2. plot_5star_treemap s df = Inr (s1, r1)
            \<and> plot_5star_treemap s1 df = Inr (s2, r2)
            \<and> s2 ! r2 = s1 ! r1 \<and> s2 ! r1 = s1 ! r1
            \<and> body (s1 ! r1) = Counts (five_star_genre_counts rows))
       \<and> (\<exists>s1 r1 s2 r2. plot_mean_rating_by_year s df = Inr (s1, r1)
            \<and> plot_mean_rating_by_year s1 df = Inr (s2, r2)
            \<and> s2 ! r2 = s1 ! r1 \<and> s2 ! r1 = s1 ! r1
            \<and> body (s1 ! r1) = Means (mean_ratings rows))
       \<and> (\<exists>s1 r1 s2 r2. top_movies_table s df m n = Inr (s1, r1)
            \<and> top_movies_table s1 df m n = Inr (s2, r2)
            \<and> s2 ! r2 = s1 ! r1 \<and> s2 ! r1 = s1 ! r1
            \<and> body (s1 ! r1) = Stats (top_movies rows m n))"
proof (intro conjI)
  note again = rating_table_append [OF assms]
  show "\<exists>s1 r1 s2 r2. plot_genre_counts s df = Inr (s1, r1)
            \<and> plot_genre_counts s1 df = Inr (s2, r2)
            \<and> s2 ! r2 = s1 ! r1 \<and> s2 ! r1 = s1 ! r1
            \<and> body (s1 ! r1) = Counts (genre_counts rows)"
    by (simp add: plot_genre_counts_run [OF assms] plot_genre_counts_run [OF again] nth_append)
  show "\<exists>s1 r1 s2 r2. plot_5star_treemap s df = Inr (s1, r1)
            \<and> plot_5star_treemap s1 df = Inr (s2, r2)
            \<and> s2 ! r2 = s1 ! r1 \<and> s2 ! r1 = s1 ! r1
            \<and> body (s1 ! r1) = Counts (five_star_genre_counts rows)"
    by (simp add: plot_5star_treemap_run [OF assms] plot_5star_treemap_run [OF again]
        nth_append)
  show "\<exists>s1 r1 s2 r2. plot_mean_rating_by_year s df = Inr (s1, r1)
            \<and> plot_mean_rating_by_year s1 df = Inr (s2, r2)
            \<and> s2 ! r2 = s1 ! r1 \<and> s2 ! r1 = s1 ! r1
            \<and> body (s1 ! r1) = Means (mean_ratings rows)"
    by (simp add: plot_mean_rating_by_year_run [OF assms]
        plot_mean_rating_by_year_run [OF again] nth_append)
  show "\<exists>s1 r1 s2 r2. top_movies_table s df m n = Inr (s1, r1)
            \<and> top_movies_table s1 df m n = Inr (s2, r2)
            \<and> s2 ! r2 = s1 ! r1 \<and> s2 ! r1 = s1 ! r1
            \<and> body (s1 ! r1) = Stats (top_movies rows m n)"
    by (simp add: top_movies_table_run [OF assms] top_movies_table_run [OF again] nth_append)
qed

theorem transforms_deterministic_witness:
  "rating_table loaded 0 scenario
   \<and> (\<exists>s1 r1 s2 r2. plot_genre_counts loaded 0 = Inr (s1, r1)
         \<and> plot_genre_counts s1 0 = Inr (s2, r2) \<and> s2 ! r2 = s1 ! r1
         \<and> body (s1 ! r1) = Counts [(''Animation'', 2), (''Action'', 1)])
   \<and> (\<exists>s1 r1 s2 r2. top_movies_table loaded 0 1 5 = Inr (s1, r1)
         \<and> top_movies_table s1 0 1 5 = Inr (s2, r2) \<and> s2 ! r2 = s1 ! r1
         \<and> body (s1 ! r1) = Stats (top_movies scenario 1 5))"
  using transforms_deterministic [OF rating_table_loaded, of 1 5] rating_table_loaded
  by (auto simp: genre_counts_scenario)

section \<open>The empty table\<close>

lemma summaries_Nil:
  "genre_counts [] = []" "five_star_genre_counts [] = []" "mean_ratings [] = []"
  "top_movies [] m n = []"
  by (simp_all add: genre_counts_def five_star_genre_counts_def top_ratings_def
      mean_ratings_def top_movies_def movie_stats_def filtered_movies_def
      sort_values_desc_def head_def group_keys_def col_def List.map_filter_def
      value_counts_Nil)

text \<open>
  C6. On the empty table each of the four summaries is empty, for any \<open>min_ratings\<close>
  and \<open>top_n\<close>; and each of the four functions, run on a store whose loaded table has no
  row, returns (it raises no error) a frame with no row.
\<close>

theorem empty_table:
  "genre_counts [] = [] \<and> five_star_genre_counts [] = [] \<and> mean_ratings [] = []
   \<and> top_movies [] m n = []
   \<and> (rating_table s df [] \<longrightarrow>
        (\<exists>s' r. plot_genre_counts s df = Inr (s', r) \<and> body (s' ! r) = Counts [])
      \<and> (\<exists>s' r. plot_5star_treemap s df = Inr (s', r) \<and> body (s' ! r) = Counts [])
      \<and> (\<exists>s' r. plot_mean_rating_by_year s df = Inr (s', r) \<and> body (s' ! r) = Means [])
      \<and> (\<exists>s' r. top_movies_table s df m n = Inr (s', r) \<and> body (s' ! r) = Stats []))"
  by (simp add: summaries_Nil plot_genre_counts_run plot_5star_treemap_run
      plot_mean_rating_by_year_run top_movies_table_run nth_append)

theorem empty_table_witness:
  "rating_table [\<lparr>columns = [''title'', ''genres'', ''rating'', ''year''], body = Ratings []\<rparr>] 0 []
   \<and> (\<exists>s' r. plot_genre_counts
         [\<lparr>columns = [''title'', ''genres'', ''rating'', ''year''], body = Ratings []\<rparr>] 0
         = Inr (s', r) \<and> body (s' ! r) = Counts [])
   \<and> (\<exists>s' r. top_movies_table
         [\<lparr>columns = [''title'', ''genres'', ''rating'', ''year''], body = Ratings []\<rparr>] 0 50 5
         = Inr (s', r) \<and> body (s' ! r) = Stats [])"
proof -
  have t: "rating_table
      [\<lparr>columns = [''title'', ''genres'', ''rating'', ''year''], body = Ratings []\<rparr>] 0 []"
    by (simp add: rating_table_def)
  from empty_table [of 50 5
      "[\<lparr>columns = [''title'', ''genres'', ''rating'', ''year''], body = Ratings []\<rparr>]" 0] t
  show ?thesis
    by blast
qed

section \<open>Rounded means\<close>

text \<open>
  The library returns every mean rounded to the nearest binary64 number. Rounding is
  monotone and leaves binary64 numbers as they are, which is all the two facts below use
  of it: the rounded mean of a year stays between the smallest and the largest rating of
  that year when these two are binary64 numbers, and averages that are sorted stay sorted
  when they are rounded.
\<close>

lemma rounded_mean_in_range:
  fixes fl :: "rat \<Rightarrow> rat"
  assumes "(y, Some v) \<in> set (mean_ratings df)"
    and "R = {v. \<exists>r\<in>set df. year r = Some y \<and> rating r = Some v}"
    and "mono fl" and "fl (Min R) = Min R" and "fl (Max R) = Max R"
  shows "Min R \<le> fl v \<and> fl v \<le> Max R"
proof -
  define rs where
    "rs = map (the \<circ> rating) (filter (\<lambda>r. year r = Some y \<and> rating r \<noteq> None) df)"
  have R: "set rs = R"
    unfolding assms(2) rs_def by (rule set_present_ratings)
  have m: "mean rs = Some v"
    unfolding rs_def using mean_ratings_member [OF assms(1)] by simp
  then have "rs \<noteq> []"
    by (auto simp: mean_def split: if_splits)
  from mean_bounds [OF this] obtain w
    where "mean rs = Some w" and "Min (set rs) \<le> w" and "w \<le> Max (set rs)"
    by blast
  with m have "Min R \<le> v" and "v \<le> Max R"
    unfolding R by simp_all
  then have "fl (Min R) \<le> fl v" and "fl v \<le> fl (Max R)"
    using assms(3) by (simp_all add: monoD)
  then show ?thesis
    by (simp add: assms(4,5))
qed

lemma rounded_sorted:
  fixes fl :: "rat \<Rightarrow> rat"
  assumes "mono fl" and "sorted_wrt (\<ge>) vs"
  shows "sorted_wrt (\<ge>) (map fl vs)"
  using assms(2) by (induction vs) (auto dest: monoD [OF assms(1)])

end
